theory Spec2Isabelle
  imports Complex_Main "HOL-Library.Char_ord" "HOL-Library.List_Lexorder"
begin

section \<open>Errors raised by the modelled code\<close>

text \<open>
  Every Python exception that the modelled functions can raise is a value of this type;
  a function that can raise returns \<open>error + 'a\<close>, with \<open>Inl\<close> for the exception.
\<close>

datatype error = IndexError | UnboundLocalError | ZeroDivisionError | RuntimeError | ValueError

definition bind_err :: "error + 'a \<Rightarrow> ('a \<Rightarrow> error + 'b) \<Rightarrow> error + 'b" where
  "bind_err m f = (case m of Inl e \<Rightarrow> Inl e | Inr x \<Rightarrow> f x)"

section \<open>Pairing index: lines 95-102 of \<open>SimCLR.contrastive_loss\<close>\<close>

text \<open>
  \<open>np.meshgrid(x, y)\<close> with the default \<open>xy\<close> indexing returns two matrices with
  \<open>len(y)\<close> rows and \<open>len(x)\<close> columns: the first repeats \<open>x\<close> along every row, the
  second holds \<open>y[i]\<close> in every cell of row \<open>i\<close>. Matrices are lists of rows.
\<close>

definition meshgrid :: "'a list \<Rightarrow> 'a list \<Rightarrow> 'a list list \<times> 'a list list" where
  "meshgrid xs ys = (map (\<lambda>y. xs) ys, map (\<lambda>y. map (\<lambda>x. y) xs) ys)"

text \<open>Elementwise \<open>pid1 + '-' + pid2\<close> on two object arrays of strings.\<close>

definition add_sep :: "string \<Rightarrow> string \<Rightarrow> string" where
  "add_sep a b = (a @ ''-'') @ b"

definition pid_matrix :: "string list \<Rightarrow> string list list" where
  "pid_matrix pids = (case meshgrid pids pids of (pid1, pid2) \<Rightarrow> map2 (map2 add_sep) pid1 pid2)"

text \<open>\<open>np.unique\<close>: the sorted distinct elements (strings compare by code point).\<close>

definition unique :: "string list \<Rightarrow> string list" where
  "unique xs = sort (remdups xs)"

definition pids_of_interest :: "string list \<Rightarrow> string list" where
  "pids_of_interest pids = unique (map2 add_sep pids pids)"

text \<open>\<open>np.isin(m, keys).astype(int)\<close>: a 0/1 matrix of the shape of \<open>m\<close>.\<close>

definition isin_int :: "string list list \<Rightarrow> string list \<Rightarrow> int list list" where
  "isin_int m keys = map (map (\<lambda>k. if k \<in> set keys then 1 else 0)) m"

definition bool_matrix_of_interest :: "string list \<Rightarrow> int list list" where
  "bool_matrix_of_interest pids = isin_int (pid_matrix pids) (pids_of_interest pids)"

text \<open>
  \<open>np.triu(m, k)\<close> keeps the cells with \<open>j - i \<ge> k\<close> and zeroes the others;
  \<open>np.tril(m, k)\<close> keeps the cells with \<open>j - i \<le> k\<close>.
\<close>

definition triu :: "int \<Rightarrow> int list list \<Rightarrow> int list list" where
  "triu k m = map (\<lambda>(i, row). map (\<lambda>(j, x). if k \<le> int j - int i then x else 0) (enumerate 0 row))
                  (enumerate 0 m)"

definition tril :: "int \<Rightarrow> int list list \<Rightarrow> int list list" where
  "tril k m = map (\<lambda>(i, row). map (\<lambda>(j, x). if int j - int i \<le> k then x else 0) (enumerate 0 row))
                  (enumerate 0 m)"

text \<open>
  \<open>np.where(m)\<close> on a matrix: the coordinates of the nonzero cells in row-major order,
  as a pair (row indices, column indices).
\<close>

definition nonzero_cells :: "int list list \<Rightarrow> (nat \<times> nat) list" where
  "nonzero_cells m = concat (map (\<lambda>(i, row). map (\<lambda>(j, x). (i, j))
       (filter (\<lambda>(j, x). x \<noteq> 0) (enumerate 0 row))) (enumerate 0 m))"

definition where2 :: "int list list \<Rightarrow> nat list \<times> nat list" where
  "where2 m = (map fst (nonzero_cells m), map snd (nonzero_cells m))"

text \<open>
  The index construction: \<open>(rows1, cols1)\<close> from the strict upper triangle and
  \<open>(rows2, cols2)\<close> from the strict lower triangle.
\<close>

definition pairing_index :: "string list \<Rightarrow> (nat list \<times> nat list) \<times> (nat list \<times> nat list)" where
  "pairing_index patientIds =
     (let m = bool_matrix_of_interest patientIds
      in (where2 (triu 1 m), where2 (tril (- 1) m)))"

text \<open>The coordinate lists that the two index pairs denote.\<close>

definition upper_index :: "string list \<Rightarrow> (nat \<times> nat) list" where
  "upper_index patientIds = (case fst (pairing_index patientIds) of (rows1, cols1) \<Rightarrow> zip rows1 cols1)"

definition lower_index :: "string list \<Rightarrow> (nat \<times> nat) list" where
  "lower_index patientIds = (case snd (pairing_index patientIds) of (rows2, cols2) \<Rightarrow> zip rows2 cols2)"

text \<open>
  Cell \<open>(i, j)\<close> of the key matrix holds \<open>pids[j] + '-' + pids[i]\<close>; it is selected when
  that key is one of the self-pair keys \<open>p + '-' + p\<close> of the batch.
\<close>

definition selected :: "string list \<Rightarrow> nat \<Rightarrow> nat \<Rightarrow> bool" where
  "selected pids i j \<longleftrightarrow> add_sep (pids ! j) (pids ! i) \<in> (\<lambda>p. add_sep p p) ` set pids"

section \<open>Tensor values\<close>

text \<open>
  The entries of a float tensor are modelled as exact reals extended with the IEEE special
  values that the operations used here can produce from finite operands: a quotient with a
  zero divisor, the logarithm of a non-positive number and the mean of an empty tensor.
  Rounding and overflow of the machine format are not modelled, and zero carries no sign
  (no divisor of the modelled code is a negative zero).
\<close>

datatype fl = Fin real | PInf | NInf | NaN

fun fadd :: "fl \<Rightarrow> fl \<Rightarrow> fl" where
  "fadd NaN _ = NaN"
| "fadd _ NaN = NaN"
| "fadd PInf NInf = NaN"
| "fadd NInf PInf = NaN"
| "fadd PInf _ = PInf"
| "fadd _ PInf = PInf"
| "fadd NInf _ = NInf"
| "fadd _ NInf = NInf"
| "fadd (Fin a) (Fin b) = Fin (a + b)"

fun fneg :: "fl \<Rightarrow> fl" where
  "fneg (Fin a) = Fin (- a)"
| "fneg PInf = NInf"
| "fneg NInf = PInf"
| "fneg NaN = NaN"

fun fdiv :: "fl \<Rightarrow> fl \<Rightarrow> fl" where
  "fdiv NaN _ = NaN"
| "fdiv _ NaN = NaN"
| "fdiv (Fin a) (Fin b) =
     (if b \<noteq> 0 then Fin (a / b) else if a = 0 then NaN else if 0 < a then PInf else NInf)"
| "fdiv (Fin a) _ = Fin 0"
| "fdiv PInf (Fin b) = (if 0 \<le> b then PInf else NInf)"
| "fdiv NInf (Fin b) = (if 0 \<le> b then NInf else PInf)"
| "fdiv _ _ = NaN"

fun fexp :: "fl \<Rightarrow> fl" where
  "fexp (Fin a) = Fin (exp a)"
| "fexp PInf = PInf"
| "fexp NInf = Fin 0"
| "fexp NaN = NaN"

fun flog :: "fl \<Rightarrow> fl" where
  "flog (Fin a) = (if 0 < a then Fin (ln a) else if a = 0 then NInf else NaN)"
| "flog PInf = PInf"
| "flog _ = NaN"

text \<open>\<open>torch.sum\<close> and \<open>torch.mean\<close> of a vector; the mean of no element is \<open>0 / 0\<close>.\<close>

definition fsum :: "fl list \<Rightarrow> fl" where
  "fsum xs = foldr fadd xs (Fin 0)"

definition fmean :: "fl list \<Rightarrow> fl" where
  "fmean xs = fdiv (fsum xs) (Fin (real (length xs)))"

text \<open>
  The embeddings: a tensor of shape \<open>(shape0, shape1, shape2)\<close>, that is (batch, views,
  embedding dimension), with finite entries.
\<close>

record tensor3 =
  shape0 :: nat
  shape1 :: nat
  shape2 :: nat
  entry :: "nat \<Rightarrow> nat \<Rightarrow> nat \<Rightarrow> real"

text \<open>Row \<open>i\<close> of \<open>features[:, lead, :]\<close>, and the whole slice as a list of rows.\<close>

definition embedding :: "tensor3 \<Rightarrow> nat \<Rightarrow> nat \<Rightarrow> real list" where
  "embedding features i lead = map (entry features i lead) [0..<shape2 features]"

definition view_array :: "tensor3 \<Rightarrow> nat \<Rightarrow> real list list" where
  "view_array features lead = map (\<lambda>i. embedding features i lead) [0..<shape0 features]"

definition dot :: "real list \<Rightarrow> real list \<Rightarrow> real" where
  "dot a b = sum_list (map2 (*) a b)"

definition norm2 :: "real list \<Rightarrow> real" where
  "norm2 v = sqrt (sum_list (map (\<lambda>x. x ^ 2) v))"

text \<open>\<open>a.norm(dim=1, keepdim=True)\<close>: one column holding the 2-norm of every row.\<close>

definition norm_vector :: "real list list \<Rightarrow> real list list" where
  "norm_vector a = map (\<lambda>row. [norm2 row]) a"

text \<open>
  \<open>torch.mm(a, b.t())\<close> for two matrices given as lists of rows: cell \<open>(i, j)\<close> is the
  product of row \<open>i\<close> of \<open>a\<close> with row \<open>j\<close> of \<open>b\<close>.
\<close>

definition mm_t :: "real list list \<Rightarrow> real list list \<Rightarrow> real list list" where
  "mm_t a b = map (\<lambda>ra. map (\<lambda>rb. dot ra rb) b) a"

text \<open>Lines 111-122: the scaled similarities of one pair of views, and their exponentials.\<close>

definition temperature_local :: real where
  "temperature_local = 1 / 10"

definition argument :: "tensor3 \<Rightarrow> nat \<Rightarrow> nat \<Rightarrow> fl list list" where
  "argument features lead1 lead2 =
     (let view1_array = view_array features lead1;
          view2_array = view_array features lead2;
          norm1_vector = norm_vector view1_array;
          norm2_vector = norm_vector view2_array;
          sim_matrix = mm_t view1_array view2_array;
          norm_matrix = mm_t norm1_vector norm2_vector
      in map2 (map2 (\<lambda>s n. fdiv (Fin s) (Fin (n * temperature_local)))) sim_matrix norm_matrix)"

definition sim_matrix_exp :: "tensor3 \<Rightarrow> nat \<Rightarrow> nat \<Rightarrow> fl list list" where
  "sim_matrix_exp features lead1 lead2 = map (map fexp) (argument features lead1 lead2)"

text \<open>
  Indexing with index arrays: \<open>m[rows, cols]\<close> on a matrix and \<open>v[idx]\<close> on a vector.
  An index outside the tensor raises \<open>IndexError\<close>.
\<close>

definition index2 :: "'a list list \<Rightarrow> nat list \<Rightarrow> nat list \<Rightarrow> error + 'a list" where
  "index2 m rows cols =
     (if list_all (\<lambda>(r, c). r < length m \<and> c < length (m ! r)) (zip rows cols)
      then Inr (map (\<lambda>(r, c). m ! r ! c) (zip rows cols))
      else Inl IndexError)"

definition index1 :: "'a list \<Rightarrow> nat list \<Rightarrow> error + 'a list" where
  "index1 v idx =
     (if list_all (\<lambda>k. k < length v) idx then Inr (map (\<lambda>k. v ! k) idx) else Inl IndexError)"

text \<open>
  \<open>torch.diag\<close> of a square matrix, and the sums of a square matrix along \<open>dim=1\<close> (one
  sum per row) and along \<open>dim=0\<close> (one sum per column).
\<close>

definition diag :: "'a list list \<Rightarrow> 'a list" where
  "diag m = map (\<lambda>i. m ! i ! i) [0..<length m]"

definition sum_dim1 :: "fl list list \<Rightarrow> fl list" where
  "sum_dim1 m = map fsum m"

definition sum_dim0 :: "fl list list \<Rightarrow> fl list" where
  "sum_dim0 m = map (\<lambda>j. fsum (map (\<lambda>row. row ! j) m)) [0..<length m]"

definition ones_like :: "fl list list \<Rightarrow> fl list list" where
  "ones_like m = map (map (\<lambda>x. Fin 1)) m"

text \<open>Lines 126-135: the four loss terms of one pair of views.\<close>

definition neg_mean_log :: "fl list \<Rightarrow> fl list \<Rightarrow> fl" where
  "neg_mean_log xs ys = fneg (fmean (map flog (map2 fdiv xs ys)))"

definition loss_diag1 :: "fl list list \<Rightarrow> fl" where
  "loss_diag1 e = neg_mean_log (diag e) (sum_dim1 e)"

definition loss_diag2 :: "fl list list \<Rightarrow> fl" where
  "loss_diag2 e = neg_mean_log (diag e) (sum_dim0 e)"

definition loss_triu :: "fl list list \<Rightarrow> nat list \<Rightarrow> nat list \<Rightarrow> error + fl" where
  "loss_triu e rows1 cols1 =
     bind_err (index2 e rows1 cols1) (\<lambda>triu_elements.
     bind_err (index1 (sum_dim1 e) rows1) (\<lambda>triu_sum_rows1.
     Inr (neg_mean_log triu_elements triu_sum_rows1)))"

definition loss_tril :: "fl list list \<Rightarrow> nat list \<Rightarrow> nat list \<Rightarrow> error + fl" where
  "loss_tril e rows2 cols2 =
     bind_err (index2 e rows2 cols2) (\<lambda>tril_elements.
     bind_err (index1 (sum_dim0 e) cols2) (\<lambda>tril_sum_cols2.
     Inr (neg_mean_log tril_elements tril_sum_cols2)))"

section \<open>The loss loop: lines 104-150 of \<open>SimCLR.contrastive_loss\<close>\<close>

text \<open>The fields of a \<open>SimCLR\<close> object that come from the configuration.\<close>

record SimCLR =
  lr :: real
  batch_size :: int
  lead_groupings :: bool
  epochs :: int
  curr_epochs :: int
  temperature :: real
  warmup_epochs :: int
  checkpoint_freq :: int

text \<open>
  \<open>combinations(nviews, 2)\<close> over \<open>set(range(V))\<close>, which CPython iterates in ascending
  order: the pairs \<open>(a, b)\<close> with \<open>a < b\<close> in lexicographic order.
\<close>

fun combinations2 :: "'a list \<Rightarrow> ('a \<times> 'a) list" where
  "combinations2 [] = []"
| "combinations2 (x # xs) = map (Pair x) xs @ combinations2 xs"

definition view_combinations :: "tensor3 \<Rightarrow> (nat \<times> nat) list" where
  "view_combinations features = combinations2 [0..<shape1 features]"

text \<open>
  The local variables that the loop assigns. \<open>loss_terms\<close> and \<open>sim_matrix_exp\<close> are
  unbound (\<open>None\<close>) until the first iteration has run.
\<close>

record loop_state =
  loss :: fl
  loss_terms :: "nat option"
  ncombinations :: nat
  sim_matrix_exp_var :: "fl list list option"

definition init_state :: loop_state where
  "init_state = \<lparr>loss = Fin 0, loss_terms = None, ncombinations = 0, sim_matrix_exp_var = None\<rparr>"

text \<open>One iteration of the loop over the view pairs (lines 111-146).\<close>

definition view_pair ::
  "(nat list \<times> nat list) \<times> (nat list \<times> nat list) \<Rightarrow> tensor3 \<Rightarrow> nat \<times> nat \<Rightarrow> loop_state
     \<Rightarrow> error + loop_state" where
  "view_pair idx features leads st =
     (case idx of ((rows1, cols1), (rows2, cols2)) \<Rightarrow>
      case leads of (lead1, lead2) \<Rightarrow>
      let e = sim_matrix_exp features lead1 lead2 in
      bind_err (loss_triu e rows1 cols1) (\<lambda>l_triu.
      bind_err (loss_tril e rows2 cols2) (\<lambda>l_tril.
      let st1 = st\<lparr>loss := fadd (loss st) (fadd (loss_diag1 e) (loss_diag2 e)),
                    loss_terms := Some 2\<rparr>;
          st2 = (if 0 < length rows1
                 then st1\<lparr>loss := fadd (loss st1) l_triu,
                          loss_terms := map_option Suc (loss_terms st1)\<rparr>
                 else st1);
          st3 = (if 0 < length rows2
                 then st2\<lparr>loss := fadd (loss st2) l_tril,
                          loss_terms := map_option Suc (loss_terms st2)\<rparr>
                 else st2)
      in Inr (st3\<lparr>ncombinations := ncombinations st3 + 1, sim_matrix_exp_var := Some e\<rparr>))))"

fun run_pairs ::
  "(nat list \<times> nat list) \<times> (nat list \<times> nat list) \<Rightarrow> tensor3 \<Rightarrow> (nat \<times> nat) list \<Rightarrow> loop_state
     \<Rightarrow> error + loop_state" where
  "run_pairs idx features [] st = Inr st"
| "run_pairs idx features (leads # rest) st =
     bind_err (view_pair idx features leads st) (run_pairs idx features rest)"

text \<open>
  The whole method. After the loop, reading \<open>loss_terms\<close> or \<open>sim_matrix_exp\<close> raises
  \<open>UnboundLocalError\<close> when no iteration has run. The result is the triple of the
  scalar loss, the last exponentiated similarity matrix and
  \<open>torch.diag(torch.ones_like(sim_matrix_exp))\<close>.
\<close>

definition contrastive_loss ::
  "SimCLR \<Rightarrow> tensor3 \<Rightarrow> string list \<Rightarrow> error + (fl \<times> fl list list \<times> fl list)" where
  "contrastive_loss self features patientIds =
     bind_err (run_pairs (pairing_index patientIds) features (view_combinations features) init_state)
       (\<lambda>st. case loss_terms st of
               None \<Rightarrow> Inl UnboundLocalError
             | Some terms \<Rightarrow>
                 (case sim_matrix_exp_var st of
                    None \<Rightarrow> Inl UnboundLocalError
                  | Some e \<Rightarrow>
                      Inr (fdiv (loss st) (Fin (real (terms * ncombinations st))),
                           e, diag (ones_like e))))"

text \<open>
  The loss terms that one iteration adds to the accumulated loss, in the order in which
  it adds them, for index arrays that lie inside the matrix: the two diagonal terms, then
  the upper and the lower term when their index array is not empty.
\<close>

definition contributing_terms :: "string list \<Rightarrow> tensor3 \<Rightarrow> nat \<times> nat \<Rightarrow> fl list" where
  "contributing_terms patientIds features leads =
     (case pairing_index patientIds of ((rows1, cols1), (rows2, cols2)) \<Rightarrow>
      case leads of (lead1, lead2) \<Rightarrow>
      let e = sim_matrix_exp features lead1 lead2 in
        [loss_diag1 e, loss_diag2 e]
        @ (if 0 < length rows1
           then [neg_mean_log (map (\<lambda>(r, c). e ! r ! c) (zip rows1 cols1))
                   (map (\<lambda>r. sum_dim1 e ! r) rows1)]
           else [])
        @ (if 0 < length rows2
           then [neg_mean_log (map (\<lambda>(r, c). e ! r ! c) (zip rows2 cols2))
                   (map (\<lambda>c. sum_dim0 e ! c) cols2)]
           else []))"

text \<open>One iteration, when the index arrays lie inside the similarity matrix.\<close>

definition after_pair :: "string list \<Rightarrow> tensor3 \<Rightarrow> nat \<times> nat \<Rightarrow> loop_state \<Rightarrow> loop_state" where
  "after_pair pids f leads st =
     st\<lparr>loss := fadd (loss st) (fsum (contributing_terms pids f leads)),
        loss_terms := Some (length (contributing_terms pids f leads)),
        ncombinations := ncombinations st + 1,
        sim_matrix_exp_var := Some (sim_matrix_exp f (fst leads) (snd leads))\<rparr>"

text \<open>A batch of two rows with two views of dimension one, for concrete instances.\<close>

definition example_features :: tensor3 where
  "example_features = \<lparr>shape0 = 2, shape1 = 2, shape2 = 1, entry = (\<lambda>b v d. 1)\<rparr>"

text \<open>All coordinates of both index sets lie inside an \<open>n\<close> by \<open>n\<close> matrix.\<close>

definition index_fits :: "string list \<Rightarrow> nat \<Rightarrow> bool" where
  "index_fits pids n \<longleftrightarrow>
     list_all (\<lambda>(r, c). r < n \<and> c < n) (upper_index pids) \<and>
     list_all (\<lambda>(r, c). r < n \<and> c < n) (lower_index pids)"

text \<open>Finite values and positive finite values.\<close>

fun is_fin :: "fl \<Rightarrow> bool" where
  "is_fin (Fin a) = True"
| "is_fin _ = False"

fun is_pos :: "fl \<Rightarrow> bool" where
  "is_pos (Fin a) = (0 < a)"
| "is_pos _ = False"



text \<open>Concrete values for instances.\<close>

definition example_self :: SimCLR where
  "example_self = \<lparr>lr = 3 / 10000, batch_size = 2, lead_groupings = False, epochs = 5,
     curr_epochs = 0, temperature = 7 / 100, warmup_epochs = 2, checkpoint_freq = 2\<rparr>"

section \<open>The loss with rounded arithmetic\<close>

text \<open>
  The same method with the result of every arithmetic operation passed through a rounding
  function \<open>rnd\<close>, which maps the exact result to the value that is stored. With
  \<open>rnd = Fin\<close> nothing is rounded and the definitions are those of the sections above.
  A library operation (a dot product of \<open>torch.mm\<close>, a norm) is rounded once, at its
  result.
\<close>

definition round_fl :: "(real \<Rightarrow> fl) \<Rightarrow> fl \<Rightarrow> fl" where
  "round_fl rnd x = (case x of Fin r \<Rightarrow> rnd r | PInf \<Rightarrow> PInf | NInf \<Rightarrow> NInf | NaN \<Rightarrow> NaN)"


























section \<open>Encoder shapes: \<open>BaselineConvNet\<close>\<close>

text \<open>
  The encoder is modelled on tensor shapes (\<open>torch.Size\<close>, a list of naturals): every
  layer maps the shape of its input to the shape of its output or raises. The values of
  the weights and activations are not modelled.
\<close>

record Conv1d =
  in_channels :: nat
  out_channels :: nat
  kernel_size :: nat
  stride :: nat

datatype head_layer = Linear nat nat | Sigmoid

record BaselineConvNet =
  classification :: bool
  avg_embeddings :: bool
  training :: bool
  conv1 :: Conv1d
  batch_norm1 :: nat
  conv2 :: Conv1d
  batch_norm2 :: nat
  conv3 :: Conv1d
  batch_norm3 :: nat
  conv4 :: Conv1d
  batch_norm4 :: nat
  conv5 :: Conv1d
  batch_norm5 :: nat
  conv6 :: Conv1d
  batch_norm6 :: nat
  finalLayer :: "head_layer list"

text \<open>\<open>__init__\<close>; a new \<open>nn.Module\<close> is in training mode.\<close>

definition BaselineConvNet_init :: "bool \<Rightarrow> bool \<Rightarrow> BaselineConvNet" where
  "BaselineConvNet_init classification_arg avg_embeddings_arg =
     \<lparr>classification = classification_arg,
      avg_embeddings = avg_embeddings_arg,
      training = True,
      conv1 = \<lparr>in_channels = 1, out_channels = 16, kernel_size = 7, stride = 4\<rparr>,
      batch_norm1 = 16,
      conv2 = \<lparr>in_channels = 16, out_channels = 32, kernel_size = 7, stride = 3\<rparr>,
      batch_norm2 = 32,
      conv3 = \<lparr>in_channels = 32, out_channels = 64, kernel_size = 5, stride = 2\<rparr>,
      batch_norm3 = 64,
      conv4 = \<lparr>in_channels = 64, out_channels = 64, kernel_size = 3, stride = 1\<rparr>,
      batch_norm4 = 64,
      conv5 = \<lparr>in_channels = 64, out_channels = 128, kernel_size = 3, stride = 1\<rparr>,
      batch_norm5 = 128,
      conv6 = \<lparr>in_channels = 128, out_channels = 256, kernel_size = 3, stride = 1\<rparr>,
      batch_norm6 = 256,
      finalLayer = (if classification_arg then [Linear 256 1, Sigmoid]
                    else [Linear 256 256, Linear 256 128])\<rparr>"

text \<open>
  \<open>nn.Conv1d\<close> without padding or dilation on a batched input \<open>(N, C, L)\<close>: the channel
  count must match and the kernel must fit; the output length is
  \<open>floor((L - kernel_size) / stride) + 1\<close>.
\<close>

fun conv1d_forward :: "Conv1d \<Rightarrow> nat list \<Rightarrow> error + nat list" where
  "conv1d_forward c [n, ch, l] =
     (if ch \<noteq> in_channels c then Inl RuntimeError
      else if l < kernel_size c then Inl RuntimeError
      else Inr [n, out_channels c, (l - kernel_size c) div stride c + 1])"
| "conv1d_forward c _ = Inl RuntimeError"

text \<open>\<open>nn.LeakyReLU\<close> keeps the shape.\<close>

definition activation :: "nat list \<Rightarrow> nat list" where
  "activation s = s"

text \<open>
  \<open>nn.BatchNorm1d\<close> on \<open>(N, C, L)\<close>: the channel count must match, and in training mode
  there must be more than one value per channel (\<open>N * L \<noteq> 1\<close>), else \<open>ValueError\<close>.
\<close>

fun batch_norm1d :: "bool \<Rightarrow> nat \<Rightarrow> nat list \<Rightarrow> error + nat list" where
  "batch_norm1d train num_features [n, ch, l] =
     (if ch \<noteq> num_features then Inl RuntimeError
      else if train \<and> n * l = 1 then Inl ValueError
      else Inr [n, ch, l])"
| "batch_norm1d train num_features _ = Inl ValueError"

text \<open>\<open>nn.AdaptiveAvgPool1d(1)\<close> and \<open>nn.Flatten()\<close> on a batched input.\<close>

fun avg_pool :: "nat list \<Rightarrow> error + nat list" where
  "avg_pool [n, ch, l] = (if l = 0 then Inl RuntimeError else Inr [n, ch, 1])"
| "avg_pool _ = Inl RuntimeError"

fun flatten :: "nat list \<Rightarrow> error + nat list" where
  "flatten [n, ch, l] = Inr [n, ch * l]"
| "flatten s = Inr s"

text \<open>
  \<open>nn.Sequential\<close> of \<open>nn.Linear\<close> and \<open>nn.Sigmoid\<close> layers: a linear layer replaces the
  last dimension, which must equal its input width.
\<close>

fun head_forward :: "head_layer \<Rightarrow> nat list \<Rightarrow> error + nat list" where
  "head_forward (Linear i out) s =
     (if s \<noteq> [] \<and> last s = i then Inr (butlast s @ [out]) else Inl RuntimeError)"
| "head_forward Sigmoid s = Inr s"

fun sequential :: "head_layer list \<Rightarrow> nat list \<Rightarrow> error + nat list" where
  "sequential [] s = Inr s"
| "sequential (layer # layers) s = bind_err (head_forward layer s) (sequential layers)"

text \<open>One block \<open>batch_norm(activation(conv(x)))\<close>, and the six blocks with pooling and flattening.\<close>

definition block :: "bool \<Rightarrow> Conv1d \<Rightarrow> nat \<Rightarrow> nat list \<Rightarrow> error + nat list" where
  "block train conv bn x =
     bind_err (conv1d_forward conv x) (\<lambda>h. batch_norm1d train bn (activation h))"

definition pipeline :: "BaselineConvNet \<Rightarrow> nat list \<Rightarrow> error + nat list" where
  "pipeline net x =
     bind_err (block (training net) (conv1 net) (batch_norm1 net) x) (\<lambda>h.
     bind_err (block (training net) (conv2 net) (batch_norm2 net) h) (\<lambda>h.
     bind_err (block (training net) (conv3 net) (batch_norm3 net) h) (\<lambda>h.
     bind_err (block (training net) (conv4 net) (batch_norm4 net) h) (\<lambda>h.
     bind_err (block (training net) (conv5 net) (batch_norm5 net) h) (\<lambda>h.
     bind_err (block (training net) (conv6 net) (batch_norm6 net) h) (\<lambda>h.
     bind_err (avg_pool h) flatten))))))"

text \<open>
  The loop over the views (lines 82-94): view \<open>i\<close> is the slice \<open>x[:, i, :].unsqueeze(1)\<close>
  of shape \<open>(batch, 1, sequence_length)\<close> (\<open>batch\<close> is the local \<open>batch_size\<close>), and the assignment \<open>h[:, i, :] = x_i\<close>
  needs \<open>x_i\<close> of shape \<open>(batch, 256)\<close>.
\<close>

fun view_loop :: "BaselineConvNet \<Rightarrow> nat \<Rightarrow> nat \<Rightarrow> nat list \<Rightarrow> error + unit" where
  "view_loop net batch sequence_length [] = Inr ()"
| "view_loop net batch sequence_length (i # rest) =
     bind_err (pipeline net [batch, 1, sequence_length]) (\<lambda>x_i.
       if x_i = [batch, 256] then view_loop net batch sequence_length rest
       else Inl RuntimeError)"

text \<open>\<open>forward\<close> on an input of shape \<open>(batch, nviews, sequence_length)\<close>.\<close>

definition forward :: "BaselineConvNet \<Rightarrow> nat \<times> nat \<times> nat \<Rightarrow> error + nat list" where
  "forward net x =
     (case x of (batch, nviews, sequence_length) \<Rightarrow>
        if classification net
        then bind_err (pipeline net [batch, nviews, sequence_length])
               (sequential (finalLayer net))
        else bind_err (view_loop net batch sequence_length [0..<nviews]) (\<lambda>u.
               let h = [batch, nviews, 256];
                   h = (if avg_embeddings net then [batch, 1, 256] else h)
               in sequential (finalLayer net) h))"

section \<open>The training loop: \<open>SimCLR.train\<close>\<close>

text \<open>
  The loop is modelled on its control flow. The body of one iteration (lines 178-221:
  forward passes, loss, backward pass, optimizer step, metrics) is a parameter that tells
  whether the iteration raises; it never calls the scheduler. The trace records the
  completed iterations, the calls of \<open>scheduler.step()\<close> and the saved checkpoints.
\<close>

datatype event = Iteration int nat | SchedulerStep int | SaveCheckpoint int

record train_state =
  n_iter :: nat
  metrics_bound :: bool
  trace :: "event list"

definition train_init :: train_state where
  "train_init = \<lparr>n_iter = 0, metrics_bound = False, trace = []\<rparr>"

text \<open>The loop over the batches of one epoch; an iteration that raises ends the run.\<close>

fun run_batches ::
  "('b \<Rightarrow> error option) \<Rightarrow> int \<Rightarrow> 'b list \<Rightarrow> train_state \<Rightarrow> train_state \<times> error option" where
  "run_batches body epoch_counter [] s = (s, None)"
| "run_batches body epoch_counter (b # bs) s =
     (case body b of
        Some err \<Rightarrow> (s, Some err)
      | None \<Rightarrow>
          run_batches body epoch_counter bs
            (s\<lparr>n_iter := n_iter s + 1, metrics_bound := True,
               trace := trace s @ [Iteration epoch_counter (n_iter s)]\<rparr>))"

text \<open>
  One epoch (lines 176-239). After the batches: the gated scheduler step; the log line,
  which reads \<open>loss\<close> and \<open>top1\<close> and raises when no iteration has bound them yet; the
  checkpoint test, which divides by \<open>checkpoint_freq\<close>.
\<close>

definition run_epoch ::
  "SimCLR \<Rightarrow> ('b \<Rightarrow> error option) \<Rightarrow> 'b list \<Rightarrow> int \<Rightarrow> train_state
     \<Rightarrow> train_state \<times> error option" where
  "run_epoch self body train_loader epoch_counter s =
     (case run_batches body epoch_counter train_loader s of
        (s1, Some err) \<Rightarrow> (s1, Some err)
      | (s1, None) \<Rightarrow>
          let s2 = (if warmup_epochs self \<le> epoch_counter
                    then s1\<lparr>trace := trace s1 @ [SchedulerStep epoch_counter]\<rparr>
                    else s1)
          in if \<not> metrics_bound s2 then (s2, Some UnboundLocalError)
             else if checkpoint_freq self = 0 then (s2, Some ZeroDivisionError)
             else if epoch_counter mod checkpoint_freq self = 0
                       \<or> epoch_counter + 1 = epochs self
                  then (s2\<lparr>trace := trace s2 @ [SaveCheckpoint epoch_counter]\<rparr>, None)
                  else (s2, None))"

fun run_epochs ::
  "SimCLR \<Rightarrow> ('b \<Rightarrow> error option) \<Rightarrow> (int \<Rightarrow> 'b list) \<Rightarrow> int list \<Rightarrow> train_state
     \<Rightarrow> train_state \<times> error option" where
  "run_epochs self body train_loader [] s = (s, None)"
| "run_epochs self body train_loader (epoch_counter # rest) s =
     (case run_epoch self body (train_loader epoch_counter) epoch_counter s of
        (s1, Some err) \<Rightarrow> (s1, Some err)
      | (s1, None) \<Rightarrow> run_epochs self body train_loader rest s1)"

text \<open>
  \<open>train\<close>: the epochs \<open>range(curr_epochs + 1, epochs)\<close>. \<open>train_loader e\<close> is the list of
  batches that iterating the loader yields in epoch \<open>e\<close>.
\<close>

definition train ::
  "SimCLR \<Rightarrow> ('b \<Rightarrow> error option) \<Rightarrow> (int \<Rightarrow> 'b list) \<Rightarrow> train_state \<times> error option" where
  "train self body train_loader =
     run_epochs self body train_loader [curr_epochs self + 1..epochs self - 1] train_init"

section \<open>Properties of the pairing index\<close>

lemma in_nonzero_cells:
  "(a, b) \<in> set (nonzero_cells m) \<longleftrightarrow> a < length m \<and> b < length (m ! a) \<and> m ! a ! b \<noteq> 0"
  by (force simp: nonzero_cells_def in_set_enumerate_eq image_iff)

lemma set_nonzero_cells:
  "set (nonzero_cells m) = {(i, j). i < length m \<and> j < length (m ! i) \<and> m ! i ! j \<noteq> 0}"
  using in_nonzero_cells by auto

lemma zip_where2: "zip (fst (where2 m)) (snd (where2 m)) = nonzero_cells m"
  by (simp add: where2_def zip_map_fst_snd)

lemma length_triu: "length (triu k m) = length m"
  by (simp add: triu_def)

lemma length_triu_row: "i < length m \<Longrightarrow> length (triu k m ! i) = length (m ! i)"
  by (simp add: triu_def nth_enumerate_eq)

lemma nth_triu:
  "i < length m \<Longrightarrow> j < length (m ! i) \<Longrightarrow>
   triu k m ! i ! j = (if k \<le> int j - int i then m ! i ! j else 0)"
  by (simp add: triu_def nth_enumerate_eq)

lemma length_tril: "length (tril k m) = length m"
  by (simp add: tril_def)

lemma length_tril_row: "i < length m \<Longrightarrow> length (tril k m ! i) = length (m ! i)"
  by (simp add: tril_def nth_enumerate_eq)

lemma nth_tril:
  "i < length m \<Longrightarrow> j < length (m ! i) \<Longrightarrow>
   tril k m ! i ! j = (if int j - int i \<le> k then m ! i ! j else 0)"
  by (simp add: tril_def nth_enumerate_eq)

lemma set_pids_of_interest: "set (pids_of_interest pids) = (\<lambda>p. add_sep p p) ` set pids"
  by (simp add: pids_of_interest_def unique_def zip_same_conv_map)

lemma length_bool_matrix: "length (bool_matrix_of_interest pids) = length pids"
  by (simp add: bool_matrix_of_interest_def isin_int_def pid_matrix_def meshgrid_def)

lemma length_bool_matrix_row:
  "i < length pids \<Longrightarrow> length (bool_matrix_of_interest pids ! i) = length pids"
  by (simp add: bool_matrix_of_interest_def isin_int_def pid_matrix_def meshgrid_def)

lemma nth_bool_matrix:
  "i < length pids \<Longrightarrow> j < length pids \<Longrightarrow>
   bool_matrix_of_interest pids ! i ! j = (if selected pids i j then 1 else 0)"
  by (simp add: bool_matrix_of_interest_def isin_int_def pid_matrix_def meshgrid_def
      set_pids_of_interest selected_def)

lemma set_upper_index:
  "set (upper_index pids) =
     {(i, j). i < length pids \<and> j < length pids \<and> i < j \<and> selected pids i j}"
  unfolding upper_index_def pairing_index_def Let_def
  apply (simp add: case_prod_beta zip_where2 set_nonzero_cells length_triu)
  apply (auto simp: length_triu_row length_bool_matrix length_bool_matrix_row nth_triu
      nth_bool_matrix split: if_splits)
  done

lemma set_lower_index:
  "set (lower_index pids) =
     {(i, j). i < length pids \<and> j < length pids \<and> j < i \<and> selected pids i j}"
  unfolding lower_index_def pairing_index_def Let_def
  apply (simp add: case_prod_beta zip_where2 set_nonzero_cells length_tril)
  apply (auto simp: length_tril_row length_bool_matrix length_bool_matrix_row nth_tril
      nth_bool_matrix split: if_splits)
  done

text \<open>Rows with equal identities are always selected.\<close>

lemma equal_ids_selected:
  "j < length pids \<Longrightarrow> pids ! i = pids ! j \<Longrightarrow> selected pids i j"
  by (auto simp: selected_def)

text \<open>
  The key of a cell determines both identities only when the separator cannot occur
  inside an identity.
\<close>

lemma append_sep_eq:
  assumes "c \<notin> set a" "c \<notin> set a'" "a @ c # b = a' @ c # b'"
  shows "a = a' \<and> b = b'"
  using assms
proof (induction a arbitrary: a')
  case Nil
  then show ?case by (cases a') auto
next
  case (Cons x a)
  then show ?case by (cases a') auto
qed

lemma selected_iff_equal:
  assumes "\<forall>p \<in> set pids. CHR ''-'' \<notin> set p" "i < length pids" "j < length pids"
  shows "selected pids i j \<longleftrightarrow> pids ! i = pids ! j"
proof
  assume "selected pids i j"
  then obtain p where p: "p \<in> set pids" "add_sep (pids ! j) (pids ! i) = add_sep p p"
    by (auto simp: selected_def)
  have "CHR ''-'' \<notin> set (pids ! j)" "CHR ''-'' \<notin> set p"
    using assms p by auto
  with p(2) have "pids ! j = p \<and> pids ! i = p"
    using append_sep_eq[of "CHR ''-''" "pids ! j" p "pids ! i" p] by (simp add: add_sep_def)
  then show "pids ! i = pids ! j" by simp
next
  assume "pids ! i = pids ! j"
  then show "selected pids i j"
    using assms(3) by (simp add: equal_ids_selected)
qed

lemma sep_free_index_iff:
  assumes "\<forall>p \<in> set pids. CHR ''-'' \<notin> set p" "i \<noteq> j"
  shows "(i, j) \<in> set (upper_index pids) \<union> set (lower_index pids) \<longleftrightarrow>
         i < length pids \<and> j < length pids \<and> pids ! i = pids ! j"
  using assms selected_iff_equal[of pids i j]
  by (auto simp: set_upper_index set_lower_index)

lemma scenario_A_eval:
  "pairing_index [''p1'', ''p1'', ''p2'', ''p3''] = (([0], [1]), ([1], [0]))"
  by code_simp

text \<open>
  C1. The index construction is meant to select the off-diagonal cells whose row and
  column identities are equal, for all identity strings. On the identities
  \<open>a-a-a\<close>, \<open>a\<close>, \<open>a-a\<close> the key of cell \<open>(0, 1)\<close> is \<open>a-a-a-a\<close>, which is also the
  self-pair key of \<open>a-a\<close>: the cells \<open>(0, 1)\<close> and \<open>(1, 0)\<close> are selected although the
  identities of rows 0 and 1 differ.
\<close>

theorem pairing_index_separator_collision:
  "upper_index [''a-a-a'', ''a'', ''a-a''] = [(0, 1)] \<and>
   lower_index [''a-a-a'', ''a'', ''a-a''] = [(1, 0)] \<and>
   [''a-a-a'', ''a'', ''a-a''] ! 0 \<noteq> [''a-a-a'', ''a'', ''a-a''] ! 1"
  by code_simp

text \<open>
  C5. For the identities \<open>p1, p1, p2, p3\<close> the upper index set is exactly the pair
  \<open>(0, 1)\<close> and the lower index set exactly the pair \<open>(1, 0)\<close>; no selected cell has a
  row or a column of \<open>p2\<close> or \<open>p3\<close> (indices 2 and 3).
\<close>

theorem scenario_A_index:
  "upper_index [''p1'', ''p1'', ''p2'', ''p3''] = [(0, 1)] \<and>
   lower_index [''p1'', ''p1'', ''p2'', ''p3''] = [(1, 0)]"
  by (simp add: upper_index_def lower_index_def scenario_A_eval)

text \<open>
  C6. Every coordinate of the upper index set lies strictly above the diagonal and every
  coordinate of the lower index set strictly below it; so the two sets are disjoint and
  neither holds a diagonal coordinate.
\<close>

theorem index_sets_strict_triangles:
  "(\<forall>(i, j) \<in> set (upper_index pids). i < j) \<and>
   (\<forall>(i, j) \<in> set (lower_index pids). j < i) \<and>
   set (upper_index pids) \<inter> set (lower_index pids) = {} \<and>
   (\<forall>i. (i, i) \<notin> set (upper_index pids) \<union> set (lower_index pids))"
  by (auto simp: set_upper_index set_lower_index)

theorem index_sets_strict_triangles_witness:
  "(0, 1) \<in> set (upper_index [''p1'', ''p1'', ''p2'', ''p3'']) \<and> (0::nat) < 1 \<and>
   (1, 0) \<in> set (lower_index [''p1'', ''p1'', ''p2'', ''p3'']) \<and>
   set (upper_index [''p1'', ''p1'', ''p2'', ''p3'']) \<inter>
     set (lower_index [''p1'', ''p1'', ''p2'', ''p3'']) = {} \<and>
   (1, 1) \<notin> set (upper_index [''p1'', ''p1'', ''p2'', ''p3'']) \<union>
     set (lower_index [''p1'', ''p1'', ''p2'', ''p3''])"
  using index_sets_strict_triangles [of "[''p1'', ''p1'', ''p2'', ''p3'']"]
  by (simp add: upper_index_def lower_index_def scenario_A_eval)

section \<open>Properties of the loss loop\<close>

lemma fadd_commute: "fadd a b = fadd b a"
  by (cases a; cases b) simp_all

lemma fadd_assoc: "fadd (fadd a b) c = fadd a (fadd b c)"
  by (cases a; cases b; cases c) simp_all

lemma fadd_zero_left: "fadd (Fin 0) a = a"
  by (cases a) simp_all

lemma fadd_zero_right: "fadd a (Fin 0) = a"
  by (cases a) simp_all

lemma fsum_Nil: "fsum [] = Fin 0"
  by (simp add: fsum_def)

lemma fsum_Cons: "fsum (x # xs) = fadd x (fsum xs)"
  by (simp add: fsum_def)

lemma fsum_append: "fsum (xs @ ys) = fadd (fsum xs) (fsum ys)"
  by (induction xs) (simp_all add: fsum_Nil fsum_Cons fadd_zero_left fadd_assoc)

lemma length_argument: "length (argument f l1 l2) = shape0 f"
  by (simp add: argument_def Let_def view_array_def mm_t_def norm_vector_def)

lemma length_argument_row: "i < shape0 f \<Longrightarrow> length (argument f l1 l2 ! i) = shape0 f"
  by (simp add: argument_def Let_def view_array_def mm_t_def norm_vector_def)


lemma length_sim_matrix_exp: "length (sim_matrix_exp f l1 l2) = shape0 f"
  by (simp add: sim_matrix_exp_def length_argument)

lemma length_sim_matrix_exp_row:
  "i < shape0 f \<Longrightarrow> length (sim_matrix_exp f l1 l2 ! i) = shape0 f"
  by (simp add: sim_matrix_exp_def length_argument length_argument_row)


lemma diag_ones_like:
  "diag (ones_like (sim_matrix_exp f l1 l2)) = replicate (shape0 f) (Fin 1)"
  by (auto simp: diag_def ones_like_def length_sim_matrix_exp length_sim_matrix_exp_row
      intro!: nth_equalityI)

lemma combinations2_last:
  "combinations2 (xs @ [a, b]) \<noteq> [] \<and> last (combinations2 (xs @ [a, b])) = (a, b)"
  by (induction xs) simp_all

lemma upt_last_two: "2 \<le> n \<Longrightarrow> [0..<n] = [0..<n - 2] @ [n - 2, n - 1]"
proof -
  assume "2 \<le> n"
  then obtain k where k: "n = Suc (Suc k)"
    by (metis add_2_eq_Suc le_Suc_ex)
  show ?thesis unfolding k by simp
qed

lemma view_combinations_last:
  assumes "2 \<le> shape1 f"
  shows "view_combinations f \<noteq> []"
    and "last (view_combinations f) = (shape1 f - 2, shape1 f - 1)"
  using combinations2_last[of "[0..<shape1 f - 2]" "shape1 f - 2" "shape1 f - 1"]
    upt_last_two[OF assms]
  by (simp_all add: view_combinations_def)

lemma length_combinations2: "length (combinations2 xs) = length xs choose 2"
  by (induction xs) (simp_all add: numeral_2_eq_2)


lemma upper_index_eq: "pairing_index pids = ((rows1, cols1), (rows2, cols2)) \<Longrightarrow>
   zip rows1 cols1 = upper_index pids \<and> rows1 = map fst (upper_index pids)
   \<and> cols1 = map snd (upper_index pids)"
  by (auto simp: upper_index_def pairing_index_def Let_def where2_def zip_map_fst_snd)

lemma lower_index_eq: "pairing_index pids = ((rows1, cols1), (rows2, cols2)) \<Longrightarrow>
   zip rows2 cols2 = lower_index pids \<and> rows2 = map fst (lower_index pids)
   \<and> cols2 = map snd (lower_index pids)"
  by (auto simp: lower_index_def pairing_index_def Let_def where2_def zip_map_fst_snd)

lemma index_in_range:
  assumes "pairing_index pids = ((rows1, cols1), (rows2, cols2))" "index_fits pids n"
  shows "list_all (\<lambda>(r, c). r < n \<and> c < n) (zip rows1 cols1)"
    and "list_all (\<lambda>(r, c). r < n \<and> c < n) (zip rows2 cols2)"
    and "list_all (\<lambda>r. r < n) rows1"
    and "list_all (\<lambda>c. c < n) cols2"
  using upper_index_eq[OF assms(1)] lower_index_eq[OF assms(1)] assms(2)
  by (auto simp: list_all_iff index_fits_def)

lemma index_fits_length: "index_fits pids (length pids)"
  by (auto simp: index_fits_def list_all_iff set_upper_index set_lower_index)


lemma index2_in_range:
  assumes "list_all (\<lambda>(r, c). r < n \<and> c < n) (zip rows cols)"
    and "length m = n" and "\<forall>i < n. length (m ! i) = n"
  shows "index2 m rows cols = Inr (map (\<lambda>(r, c). m ! r ! c) (zip rows cols))"
proof -
  have "list_all (\<lambda>(r, c). r < length m \<and> c < length (m ! r)) (zip rows cols)"
    using assms by (auto simp: list_all_iff)
  then show ?thesis by (simp add: index2_def)
qed

lemma index1_in_range:
  assumes "list_all (\<lambda>k. k < n) idx" and "length v = n"
  shows "index1 v idx = Inr (map (\<lambda>k. v ! k) idx)"
  using assms by (simp add: index1_def)

lemma length_sum_dim1: "length (sum_dim1 m) = length m"
  by (simp add: sum_dim1_def)

lemma length_sum_dim0: "length (sum_dim0 m) = length m"
  by (simp add: sum_dim0_def)

lemma loss_triu_in_range:
  assumes "pairing_index pids = ((rows1, cols1), (rows2, cols2))" "index_fits pids (shape0 f)"
  shows "loss_triu (sim_matrix_exp f l1 l2) rows1 cols1 =
     Inr (neg_mean_log (map (\<lambda>(r, c). sim_matrix_exp f l1 l2 ! r ! c) (zip rows1 cols1))
            (map (\<lambda>r. sum_dim1 (sim_matrix_exp f l1 l2) ! r) rows1))"
  using index_in_range(1,3)[OF assms]
  by (simp add: loss_triu_def bind_err_def
      index2_in_range[where n = "shape0 f"] index1_in_range[where n = "shape0 f"]
      length_sim_matrix_exp length_sim_matrix_exp_row length_sum_dim1)

lemma loss_tril_in_range:
  assumes "pairing_index pids = ((rows1, cols1), (rows2, cols2))" "index_fits pids (shape0 f)"
  shows "loss_tril (sim_matrix_exp f l1 l2) rows2 cols2 =
     Inr (neg_mean_log (map (\<lambda>(r, c). sim_matrix_exp f l1 l2 ! r ! c) (zip rows2 cols2))
            (map (\<lambda>c. sum_dim0 (sim_matrix_exp f l1 l2) ! c) cols2))"
  using index_in_range(2,4)[OF assms]
  by (simp add: loss_tril_def bind_err_def
      index2_in_range[where n = "shape0 f"] index1_in_range[where n = "shape0 f"]
      length_sim_matrix_exp length_sim_matrix_exp_row length_sum_dim0)

lemma view_pair_in_range:
  assumes "index_fits pids (shape0 f)"
  shows "view_pair (pairing_index pids) f leads st = Inr (after_pair pids f leads st)"
proof -
  obtain rows1 cols1 rows2 cols2 where idx: "pairing_index pids = ((rows1, cols1), (rows2, cols2))"
    by (metis surj_pair)
  obtain l1 l2 where leads: "leads = (l1, l2)"
    by (cases leads)
  show ?thesis
    unfolding view_pair_def after_pair_def contributing_terms_def idx leads
    by (simp add: loss_triu_in_range[OF idx assms] loss_tril_in_range[OF idx assms]
        bind_err_def Let_def fsum_Cons fsum_Nil fadd_assoc fadd_zero_right)
qed


lemma run_pairs_in_range:
  assumes "index_fits pids (shape0 f)"
  shows "run_pairs (pairing_index pids) f ps st = Inr (foldl (\<lambda>s p. after_pair pids f p s) st ps)"
  by (induction ps arbitrary: st) (simp_all add: view_pair_in_range[OF assms] bind_err_def)

lemma loss_after_pairs:
  "loss (foldl (\<lambda>s p. after_pair pids f p s) st ps) =
     fadd (loss st) (fsum (concat (map (contributing_terms pids f) ps)))"
  by (induction ps arbitrary: st)
    (simp_all add: after_pair_def fsum_Nil fsum_append fadd_zero_right fadd_assoc)

lemma ncombinations_after_pairs:
  "ncombinations (foldl (\<lambda>s p. after_pair pids f p s) st ps) = ncombinations st + length ps"
  by (induction ps arbitrary: st) (simp_all add: after_pair_def)

lemma last_after_pairs:
  "ps \<noteq> [] \<Longrightarrow>
   loss_terms (foldl (\<lambda>s p. after_pair pids f p s) st ps)
     = Some (length (contributing_terms pids f (last ps))) \<and>
   sim_matrix_exp_var (foldl (\<lambda>s p. after_pair pids f p s) st ps)
     = Some (sim_matrix_exp f (fst (last ps)) (snd (last ps)))"
  by (induction ps rule: rev_induct) (simp_all add: after_pair_def)

lemma contrastive_loss_in_range:
  assumes "view_combinations f \<noteq> []" "index_fits pids (shape0 f)"
  shows "contrastive_loss self f pids =
     Inr (fdiv (fsum (concat (map (contributing_terms pids f) (view_combinations f))))
            (Fin (real (length (contributing_terms pids f (last (view_combinations f)))
                        * length (view_combinations f)))),
          sim_matrix_exp f (fst (last (view_combinations f))) (snd (last (view_combinations f))),
          replicate (shape0 f) (Fin 1))"
  using last_after_pairs[OF assms(1), of pids f init_state]
  by (simp add: contrastive_loss_def run_pairs_in_range[OF assms(2)] bind_err_def
      loss_after_pairs ncombinations_after_pairs diag_ones_like init_state_def fadd_zero_left)


text \<open>
  The number of terms that an iteration adds depends on the index arrays only, so it is
  the same in every iteration: the divisor of the result is also the number of all terms
  added.
\<close>

lemma term_count_same_for_all_pairs:
  "length (contributing_terms pids f leads) = length (contributing_terms pids f leads')"
  by (simp add: contributing_terms_def Let_def split: prod.splits)

lemma term_count_total:
  "length (concat (map (contributing_terms pids f) ps)) =
     length (contributing_terms pids f leads) * length ps"
proof (induction ps)
  case Nil
  then show ?case by simp
next
  case (Cons p ps)
  then show ?case
    using term_count_same_for_all_pairs[of pids f p leads] by simp
qed

lemma example_view_combinations: "view_combinations example_features = [(0, 1)]"
  by (simp add: view_combinations_def example_features_def numeral_2_eq_2)

lemma example_pairing_index: "pairing_index [''p1'', ''p2''] = (([], []), ([], []))"
  by code_simp

text \<open>
  C2. With at least two views and one identity per batch row, the method returns the sum
  of all loss terms that the iterations added, divided by the number of terms of the last
  iteration times the number of view pairs.
\<close>

theorem contrastive_loss_divisor:
  assumes "2 \<le> shape1 features" "length patientIds = shape0 features"
  shows "\<exists>m d. contrastive_loss self features patientIds =
     Inr (fdiv (fsum (concat (map (contributing_terms patientIds features)
                               (view_combinations features))))
            (Fin (real (length (contributing_terms patientIds features
                                  (last (view_combinations features)))
                        * length (view_combinations features)))),
          m, d)"
  using contrastive_loss_in_range[OF view_combinations_last(1)[OF assms(1)], of patientIds self]
    index_fits_length[of patientIds] assms(2)
  by simp

theorem contrastive_loss_divisor_witness:
  "\<forall>self. 2 \<le> shape1 example_features \<and> length [''p1'', ''p2''] = shape0 example_features \<and>
     (\<exists>m d. contrastive_loss self example_features [''p1'', ''p2''] =
        Inr (fdiv (fsum (contributing_terms [''p1'', ''p2''] example_features (0, 1)))
               (Fin (real (2 * 1))), m, d))"
proof
  fix self
  have v: "2 \<le> shape1 example_features"
    by (simp add: example_features_def)
  have n: "length [''p1'', ''p2''] = shape0 example_features"
    by (simp add: example_features_def)
  have "length (contributing_terms [''p1'', ''p2''] example_features (0, 1)) = 2"
    by (simp add: contributing_terms_def example_pairing_index Let_def)
  then show "2 \<le> shape1 example_features \<and> length [''p1'', ''p2''] = shape0 example_features \<and>
     (\<exists>m d. contrastive_loss self example_features [''p1'', ''p2''] =
        Inr (fdiv (fsum (contributing_terms [''p1'', ''p2''] example_features (0, 1)))
               (Fin (real (2 * 1))), m, d))"
    using contrastive_loss_divisor [OF v n, of self] v n
    by (simp add: example_view_combinations)
qed





section \<open>Batches without positive pairs\<close>

lemma is_pos_is_fin: "is_pos x \<Longrightarrow> is_fin x"
  by (cases x) simp_all


























section \<open>Properties of the loss with rounded arithmetic\<close>


lemma round_fl_simps:
  "round_fl rnd (Fin r) = rnd r" "round_fl rnd PInf = PInf" "round_fl rnd NInf = NInf"
  "round_fl rnd NaN = NaN"
  by (simp_all add: round_fl_def)


































section \<open>Output shape of the encoder\<close>

lemma block_ok:
  assumes "ch = in_channels c" "kernel_size c \<le> l" "bn = out_channels c"
    and "\<not> (t \<and> n * ((l - kernel_size c) div stride c + 1) = 1)"
  shows "block t c bn [n, ch, l] = Inr [n, out_channels c, (l - kernel_size c) div stride c + 1]"
  using assms by (simp add: block_def bind_err_def activation_def)

lemma pipeline_multi_view:
  assumes "223 \<le> l" "t \<and> n = 1 \<longrightarrow> 247 \<le> l"
  shows "pipeline ((BaselineConvNet_init False avg)\<lparr>training := t\<rparr>) [n, 1, l] = Inr [n, 256]"
proof -
  define l1 where "l1 = (l - 7) div 4 + 1"
  define l2 where "l2 = (l1 - 7) div 3 + 1"
  define l3 where "l3 = (l2 - 5) div 2 + 1"
  define l4 where "l4 = l3 - 3 + 1"
  define l5 where "l5 = l4 - 3 + 1"
  define l6 where "l6 = l5 - 3 + 1"
  have b1: "55 \<le> l1" using assms(1) by (simp add: l1_def)
  have b2: "17 \<le> l2" using b1 by (simp add: l2_def)
  have b3: "7 \<le> l3" using b2 by (simp add: l3_def)
  have b4: "5 \<le> l4" using b3 by (simp add: l4_def)
  have b5: "3 \<le> l5" using b4 by (simp add: l5_def)
  have b6: "1 \<le> l6" using b5 by (simp add: l6_def)
  have c6: "2 \<le> l6" if "247 \<le> l"
  proof -
    have "61 \<le> l1" using that by (simp add: l1_def)
    then have "19 \<le> l2" by (simp add: l2_def)
    then have "8 \<le> l3" by (simp add: l3_def)
    then show ?thesis by (simp add: l4_def l5_def l6_def)
  qed
  have n6: "\<not> (t \<and> n * l6 = 1)"
    using assms(2) c6 by auto
  have nk: "\<not> (t \<and> n * k = 1)" if "3 \<le> k" for k
    using that by auto
  let ?net = "BaselineConvNet_init False avg"
  have s1: "block t (conv1 ?net) (batch_norm1 ?net) [n, Suc 0, l] = Inr [n, 16, l1]"
    using assms(1) nk[of l1] b1 by (simp add: block_ok BaselineConvNet_init_def l1_def)
  have s2: "block t (conv2 ?net) (batch_norm2 ?net) [n, 16, l1] = Inr [n, 32, l2]"
    using b1 nk[of l2] b2 by (simp add: block_ok BaselineConvNet_init_def l2_def)
  have s3: "block t (conv3 ?net) (batch_norm3 ?net) [n, 32, l2] = Inr [n, 64, l3]"
    using b2 nk[of l3] b3 by (simp add: block_ok BaselineConvNet_init_def l3_def)
  have s4: "block t (conv4 ?net) (batch_norm4 ?net) [n, 64, l3] = Inr [n, 64, l4]"
    using b3 nk[of l4] b4 by (simp add: block_ok BaselineConvNet_init_def l4_def)
  have s5: "block t (conv5 ?net) (batch_norm5 ?net) [n, 64, l4] = Inr [n, 128, l5]"
    using b4 nk[of l5] b5 by (simp add: block_ok BaselineConvNet_init_def l5_def)
  have s6: "block t (conv6 ?net) (batch_norm6 ?net) [n, 128, l5] = Inr [n, 256, l6]"
    using b5 n6 by (simp add: block_ok BaselineConvNet_init_def l6_def)
  show ?thesis
    using b6 by (simp add: pipeline_def bind_err_def s1 s2 s3 s4 s5 s6)
qed

lemma view_loop_ok:
  assumes "pipeline net [n, 1, l] = Inr [n, 256]"
  shows "view_loop net n l views = Inr ()"
  using assms by (induction views) (simp_all add: bind_err_def)

text \<open>
  In training mode a batch of one row whose length leaves a single value per channel
  after the sixth convolution is refused by the sixth batch normalisation.
\<close>

lemma forward_single_value_per_channel:
  "forward (BaselineConvNet_init False avg) (1, 1, 223) = Inl ValueError"
  by code_simp

text \<open>
  C8. In multi-view mode, on an input long enough for the six blocks (at least 223
  samples, so that every kernel fits, and at least 247 samples for a batch of one row in
  training mode, so that the last batch normalisation sees more than one value per
  channel), \<open>forward\<close> returns the shape \<open>(batch, nviews, 128)\<close>, or \<open>(batch, 1, 128)\<close>
  with \<open>avg_embeddings\<close>, for every batch size and every such length.
\<close>

theorem forward_multi_view_shape:
  assumes "223 \<le> sequence_length" "t \<and> batch = 1 \<longrightarrow> 247 \<le> sequence_length"
  shows "forward ((BaselineConvNet_init False avg)\<lparr>training := t\<rparr>)
           (batch, nviews, sequence_length)
         = Inr [batch, if avg then 1 else nviews, 128]"
  using view_loop_ok[OF pipeline_multi_view[OF assms, of avg], of "[0..<nviews]"]
  by (simp add: forward_def bind_err_def BaselineConvNet_init_def)

theorem forward_multi_view_shape_witness:
  "(223::nat) \<le> 2500 \<and> (247::nat) \<le> 2500 \<and>
   forward ((BaselineConvNet_init False False)\<lparr>training := True\<rparr>) (4, 8, 2500) = Inr [4, 8, 128] \<and>
   forward ((BaselineConvNet_init False True)\<lparr>training := True\<rparr>) (1, 8, 2500) = Inr [1, 1, 128]"
proof -
  have l: "(223::nat) \<le> 2500" by simp
  have g: "True \<and> (4::nat) = 1 \<longrightarrow> (247::nat) \<le> 2500" by simp
  have h: "True \<and> (1::nat) = 1 \<longrightarrow> (247::nat) \<le> 2500" by simp
  show ?thesis
    using forward_multi_view_shape [OF l g, of False 8] forward_multi_view_shape [OF l h, of True 8]
    by simp
qed

section \<open>Scheduler steps of the training loop\<close>

lemma run_batches_scheduler:
  "count_list (trace (fst (run_batches body e bs s))) (SchedulerStep e') =
   count_list (trace s) (SchedulerStep e')"
  by (induction bs arbitrary: s) (simp_all add: split: option.splits)

lemma run_epoch_scheduler_le:
  "count_list (trace (fst (run_epoch self body bs e s))) (SchedulerStep e') \<le>
   count_list (trace s) (SchedulerStep e') + (if e' = e \<and> warmup_epochs self \<le> e then 1 else 0)"
  using run_batches_scheduler[of body e bs s e']
  by (auto simp: run_epoch_def Let_def split: prod.splits option.splits)

lemma run_epoch_scheduler_eq:
  assumes "snd (run_epoch self body bs e s) = None"
  shows "count_list (trace (fst (run_epoch self body bs e s))) (SchedulerStep e') =
   count_list (trace s) (SchedulerStep e') + (if e' = e \<and> warmup_epochs self \<le> e then 1 else 0)"
  using run_batches_scheduler[of body e bs s e'] assms
  by (auto simp: run_epoch_def Let_def split: prod.splits option.splits if_splits)

lemma run_epochs_scheduler_le:
  assumes "distinct es"
  shows "count_list (trace (fst (run_epochs self body loader es s))) (SchedulerStep e') \<le>
   count_list (trace s) (SchedulerStep e')
     + (if e' \<in> set es \<and> warmup_epochs self \<le> e' then 1 else 0)"
  using assms
proof (induction es arbitrary: s)
  case Nil
  then show ?case by simp
next
  case (Cons e es)
  obtain s1 r1 where r: "run_epoch self body (loader e) e s = (s1, r1)"
    by (cases "run_epoch self body (loader e) e s")
  have le1: "count_list (trace s1) (SchedulerStep e') \<le>
     count_list (trace s) (SchedulerStep e') + (if e' = e \<and> warmup_epochs self \<le> e then 1 else 0)"
    using run_epoch_scheduler_le[of self body "loader e" e s e'] by (simp add: r)
  show ?case
  proof (cases r1)
    case (Some err)
    then show ?thesis using le1 by (auto simp: r split: if_splits)
  next
    case None
    have "count_list (trace (fst (run_epochs self body loader es s1))) (SchedulerStep e') \<le>
       count_list (trace s1) (SchedulerStep e')
         + (if e' \<in> set es \<and> warmup_epochs self \<le> e' then 1 else 0)"
      using Cons.IH[of s1] Cons.prems by simp
    then show ?thesis
      using le1 None Cons.prems by (auto simp: r split: if_splits)
  qed
qed

lemma run_epochs_scheduler_eq:
  assumes "distinct es" "snd (run_epochs self body loader es s) = None"
  shows "count_list (trace (fst (run_epochs self body loader es s))) (SchedulerStep e') =
   count_list (trace s) (SchedulerStep e')
     + (if e' \<in> set es \<and> warmup_epochs self \<le> e' then 1 else 0)"
  using assms
proof (induction es arbitrary: s)
  case Nil
  then show ?case by simp
next
  case (Cons e es)
  obtain s1 r1 where r: "run_epoch self body (loader e) e s = (s1, r1)"
    by (cases "run_epoch self body (loader e) e s")
  have r1: "r1 = None"
    using Cons.prems(2) by (cases r1) (simp_all add: r)
  have eq1: "count_list (trace s1) (SchedulerStep e') =
     count_list (trace s) (SchedulerStep e') + (if e' = e \<and> warmup_epochs self \<le> e then 1 else 0)"
    using run_epoch_scheduler_eq[of self body "loader e" e s e'] by (simp add: r r1)
  have "count_list (trace (fst (run_epochs self body loader es s1))) (SchedulerStep e') =
       count_list (trace s1) (SchedulerStep e')
         + (if e' \<in> set es \<and> warmup_epochs self \<le> e' then 1 else 0)"
    using Cons.IH[of s1] Cons.prems by (simp add: r r1)
  then show ?case
    using eq1 r1 Cons.prems(1) by (auto simp: r split: if_splits)
qed

lemma example_train:
  "train example_self (\<lambda>b::unit. None) (\<lambda>e. [(), ()]) =
     (\<lparr>n_iter = 8, metrics_bound = True,
       trace = [Iteration 1 0, Iteration 1 1,
                Iteration 2 2, Iteration 2 3, SchedulerStep 2, SaveCheckpoint 2,
                Iteration 3 4, Iteration 3 5, SchedulerStep 3,
                Iteration 4 6, Iteration 4 7, SchedulerStep 4, SaveCheckpoint 4]\<rparr>, None)"
  by code_simp

text \<open>
  C9. In every run of \<open>train\<close>, the scheduler is stepped at most once for an epoch
  counter, and only for counters of the run that have reached \<open>warmup_epochs\<close>; when the
  run ends without an exception it is stepped exactly once for each such counter; and
  the loop over the batches of an epoch never steps it.
\<close>

theorem scheduler_step_gated:
  assumes "train self body train_loader = (s, r)"
  shows "count_list (trace s) (SchedulerStep e) \<le> 1 \<and>
    (SchedulerStep e \<in> set (trace s) \<longrightarrow>
       warmup_epochs self \<le> e \<and> curr_epochs self < e \<and> e < epochs self) \<and>
    (r = None \<and> warmup_epochs self \<le> e \<and> curr_epochs self < e \<and> e < epochs self \<longrightarrow>
       count_list (trace s) (SchedulerStep e) = 1) \<and>
    count_list (trace (fst (run_batches body e' batches s0))) (SchedulerStep e) =
      count_list (trace s0) (SchedulerStep e)"
proof -
  let ?es = "[curr_epochs self + 1..epochs self - 1]"
  have d: "distinct ?es" by simp
  have m: "e \<in> set ?es \<longleftrightarrow> curr_epochs self < e \<and> e < epochs self" by auto
  have s: "s = fst (run_epochs self body train_loader ?es train_init)"
    and r: "r = snd (run_epochs self body train_loader ?es train_init)"
    using assms by (simp_all add: train_def)
  have le: "count_list (trace s) (SchedulerStep e) \<le>
      (if e \<in> set ?es \<and> warmup_epochs self \<le> e then 1 else 0)"
    using run_epochs_scheduler_le[OF d, of self body train_loader train_init e]
    by (simp add: s train_init_def)
  have eq: "count_list (trace s) (SchedulerStep e) =
      (if e \<in> set ?es \<and> warmup_epochs self \<le> e then 1 else 0)" if "r = None"
    using run_epochs_scheduler_eq[OF d, of self body train_loader train_init e] that
    by (simp add: s r train_init_def)
  have c1: "count_list (trace s) (SchedulerStep e) \<le> 1"
    using le by (auto split: if_splits)
  have c2: "warmup_epochs self \<le> e \<and> curr_epochs self < e \<and> e < epochs self"
    if "SchedulerStep e \<in> set (trace s)"
  proof -
    have "count_list (trace s) (SchedulerStep e) \<noteq> 0"
      using that by (simp add: count_list_0_iff)
    then show ?thesis using le m by (auto split: if_splits)
  qed
  have c3: "count_list (trace s) (SchedulerStep e) = 1"
    if "r = None" "warmup_epochs self \<le> e" "curr_epochs self < e" "e < epochs self"
    using eq[OF that(1)] m that by simp
  show ?thesis
    using c1 c2 c3 run_batches_scheduler[of body e' batches s0 e] by blast
qed


theorem scheduler_step_gated_witness:
  "snd (train example_self (\<lambda>b::unit. None) (\<lambda>e. [(), ()])) = None \<and>
   warmup_epochs example_self \<le> 2 \<and> curr_epochs example_self < 2 \<and> 2 < epochs example_self \<and>
   SchedulerStep 2 \<in> set (trace (fst (train example_self (\<lambda>b::unit. None) (\<lambda>e. [(), ()])))) \<and>
   count_list (trace (fst (train example_self (\<lambda>b::unit. None) (\<lambda>e. [(), ()])))) (SchedulerStep 2) = 1 \<and>
   count_list (trace (fst (train example_self (\<lambda>b::unit. None) (\<lambda>e. [(), ()])))) (SchedulerStep 1) = 0"
proof -
  have cfg: "warmup_epochs example_self \<le> 2" "curr_epochs example_self < 2"
    "2 < epochs example_self" "\<not> warmup_epochs example_self \<le> 1"
    by (simp_all add: example_self_def)
  have run: "snd (train example_self (\<lambda>b::unit. None) (\<lambda>e. [(), ()])) = None"
    "SchedulerStep 2 \<in> set (trace (fst (train example_self (\<lambda>b::unit. None) (\<lambda>e. [(), ()]))))"
    by (simp_all add: example_train)
  have "count_list (trace (fst (train example_self (\<lambda>b::unit. None) (\<lambda>e. [(), ()]))))
          (SchedulerStep 2) = 1"
    using scheduler_step_gated [OF example_train, of 2] cfg by (simp add: example_train)
  moreover have "count_list (trace (fst (train example_self (\<lambda>b::unit. None) (\<lambda>e. [(), ()]))))
          (SchedulerStep 1) = 0"
    using scheduler_step_gated [OF example_train, of 1] cfg(4) by (simp add: example_train)
  ultimately show ?thesis
    using cfg run by simp
qed


end
